theory Spec2Isabelle
  imports Complex_Main "HOL-Library.Word" "HOL-Library.Log_Nat"
begin

section \<open>JavaScript values\<close>

text \<open>
  A JavaScript string is a sequence of UTF-16 code units. \<open>us\<close> turns the ASCII text of
  a literal of the source into its code units. The names of properties, of embed fields
  and of headers are kept as HOL strings: the worker writes them as ASCII literals and
  only compares them.
\<close>

type_synonym jsstring = "16 word list"

definition us :: "string \<Rightarrow> jsstring" where
  "us s = map (\<lambda>c. of_nat (of_char c)) s"

text \<open>
  The worker handles values that come out of \<^verbatim>\<open>JSON.parse\<close>, plus \<^verbatim>\<open>undefined\<close>
  (the result of reading a property that is not there). A number is an IEEE double: a
  finite one is given by its exact rational value, and the three non-finite ones are
  kept apart (minus zero is not told from zero; the worker never divides by a number it
  read). An object is the list of its own properties; the first entry of a key is the one
  that counts.
\<close>

datatype jsnum = Fin rat | NaN | PosInf | NegInf

datatype jsval =
    JUndefined
  | JNull
  | JBool bool
  | JNum jsnum
  | JStr jsstring
  | JArr "jsval list"
  | JObj "(string \<times> jsval) list"

text \<open>What the source can throw: the kind of the error and its \<^verbatim>\<open>message\<close>. The
  messages of the errors that the engine throws are worded as V8 words them.\<close>

datatype js_error = TypeError jsstring | SyntaxError jsstring | Error jsstring

fun message :: "js_error \<Rightarrow> jsstring" where
  "message (TypeError m) = m"
| "message (SyntaxError m) = m"
| "message (Error m) = m"

text \<open>\<^verbatim>\<open>!!v\<close>: the values that are falsy are \<^verbatim>\<open>undefined\<close>, \<^verbatim>\<open>null\<close>,
  \<^verbatim>\<open>false\<close>, \<^verbatim>\<open>0\<close>, \<^verbatim>\<open>NaN\<close> and the empty string.\<close>

fun truthy :: "jsval \<Rightarrow> bool" where
  "truthy JUndefined = False"
| "truthy JNull = False"
| "truthy (JBool b) = b"
| "truthy (JNum (Fin r)) = (r \<noteq> 0)"
| "truthy (JNum NaN) = False"
| "truthy (JNum PosInf) = True"
| "truthy (JNum NegInf) = True"
| "truthy (JStr s) = (s \<noteq> [])"
| "truthy (JArr xs) = True"
| "truthy (JObj kvs) = True"

fun nullish :: "jsval \<Rightarrow> bool" where
  "nullish JUndefined = True"
| "nullish JNull = True"
| "nullish v = False"

text \<open>\<^verbatim>\<open>typeof v === 'object'\<close> holds of objects, arrays and \<^verbatim>\<open>null\<close>.\<close>

fun typeof_object :: "jsval \<Rightarrow> bool" where
  "typeof_object JNull = True"
| "typeof_object (JArr xs) = True"
| "typeof_object (JObj kvs) = True"
| "typeof_object v = False"

text \<open>
  \<^verbatim>\<open>v.k\<close> for a receiver that is neither \<^verbatim>\<open>undefined\<close> nor \<^verbatim>\<open>null\<close>. The keys
  the worker reads are data keys (\<^verbatim>\<open>id\<close>, \<^verbatim>\<open>status\<close>, \<^verbatim>\<open>commit_hash\<close>, ...) and
  \<^verbatim>\<open>length\<close>; none of them is inherited from a prototype, so an object answers with
  its own property, a string or an array answers only to \<^verbatim>\<open>length\<close>, and
  everything else is \<^verbatim>\<open>undefined\<close>.
\<close>

fun readProp :: "jsval \<Rightarrow> string \<Rightarrow> jsval" where
  "readProp (JObj kvs) k = (case map_of kvs k of None \<Rightarrow> JUndefined | Some v \<Rightarrow> v)"
| "readProp (JStr s) k = (if k = ''length'' then JNum (Fin (of_nat (length s))) else JUndefined)"
| "readProp (JArr xs) k = (if k = ''length'' then JNum (Fin (of_nat (length xs))) else JUndefined)"
| "readProp v k = JUndefined"

text \<open>\<^verbatim>\<open>v.k\<close> in general: reading a property of \<^verbatim>\<open>undefined\<close> or \<^verbatim>\<open>null\<close>
  throws a TypeError.\<close>

definition getProp :: "jsval \<Rightarrow> string \<Rightarrow> js_error + jsval" where
  "getProp v k =
     (if nullish v
      then Inl (TypeError (us (''Cannot read properties of ''
                                 @ (if v = JNull then ''null'' else ''undefined'')
                                 @ '' (reading '' @ [CHR 0x27] @ k @ [CHR 0x27] @ '')'')))
      else Inr (readProp v k))"

text \<open>\<^verbatim>\<open>a?.k\<close>, where \<open>a\<close> is an expression that may itself throw.\<close>

definition optChain :: "js_error + jsval \<Rightarrow> string \<Rightarrow> js_error + jsval" where
  "optChain a k =
     (case a of Inl e \<Rightarrow> Inl e
      | Inr v \<Rightarrow> if nullish v then Inr JUndefined else getProp v k)"

text \<open>\<^verbatim>\<open>a || b\<close> on values, and on expressions that may throw: the left operand is
  evaluated first, and the right one only when the left one is falsy.\<close>

definition js_or :: "jsval \<Rightarrow> jsval \<Rightarrow> jsval" where
  "js_or a b = (if truthy a then a else b)"

definition orE :: "js_error + jsval \<Rightarrow> js_error + jsval \<Rightarrow> js_error + jsval" where
  "orE a b = (case a of Inl e \<Rightarrow> Inl e | Inr v \<Rightarrow> if truthy v then Inr v else b)"

text \<open>\<^verbatim>\<open>a === 'lit'\<close> against a string literal: true for that very string only.\<close>

definition strictEqStr :: "js_error + jsval \<Rightarrow> string \<Rightarrow> js_error + jsval" where
  "strictEqStr a s = (case a of Inl e \<Rightarrow> Inl e | Inr v \<Rightarrow> Inr (JBool (v = JStr (us s))))"

text \<open>An object literal \<^verbatim>\<open>{ k1: e1, k2: e2, ... }\<close>: the property values are
  evaluated in order, and the first one that throws ends the evaluation.\<close>

fun objectLiteral :: "(string \<times> (js_error + jsval)) list \<Rightarrow> js_error + (string \<times> jsval) list" where
  "objectLiteral [] = Inr []"
| "objectLiteral ((k, e) # rest) =
     (case e of Inl err \<Rightarrow> Inl err
      | Inr v \<Rightarrow> (case objectLiteral rest of Inl err \<Rightarrow> Inl err | Inr kvs \<Rightarrow> Inr ((k, v) # kvs)))"

section \<open>The payload parser (cloudflare.js)\<close>

text \<open>
  \<^verbatim>\<open>parseDeploymentEvent(payload)\<close>. The first argument is what
  \<^verbatim>\<open>new Date().toISOString()\<close> returns at the time of the call.
\<close>

definition parseDeploymentEvent :: "jsstring \<Rightarrow> jsval \<Rightarrow> js_error + jsval" where
  "parseDeploymentEvent now payload =
     (case orE (getProp payload ''deployment'') (Inr payload) of
        Inl e \<Rightarrow> Inl e
      | Inr deployment \<Rightarrow>
         (case objectLiteral
            [(''id'', orE (getProp deployment ''id'') (getProp deployment ''deployment_id'')),
             (''projectName'',
                orE (orE (getProp deployment ''project_name'') (getProp payload ''project_name''))
                    (Inr (JStr (us ''tlc-survey'')))),
             (''environment'',
                orE (getProp deployment ''environment'') (Inr (JStr (us ''production'')))),
             (''status'',
                orE (orE (optChain (getProp deployment ''latest_stage'') ''status'')
                         (getProp deployment ''status''))
                    (Inr (JStr (us ''unknown'')))),
             (''isSuccess'',
                strictEqStr (orE (optChain (getProp deployment ''latest_stage'') ''status'')
                                 (getProp deployment ''status'')) ''success''),
             (''isFailure'',
                strictEqStr (orE (optChain (getProp deployment ''latest_stage'') ''status'')
                                 (getProp deployment ''status'')) ''failure''),
             (''branch'',
                orE (orE (getProp deployment ''branch'') (getProp deployment ''git_branch''))
                    (Inr (JStr (us ''main'')))),
             (''commitHash'',
                orE (orE (getProp deployment ''commit_hash'') (getProp deployment ''git_commit_hash''))
                    (Inr (JStr []))),
             (''commitMessage'', orE (getProp deployment ''commit_message'') (Inr (JStr []))),
             (''commitAuthor'',
                orE (orE (getProp deployment ''commit_author'') (getProp deployment ''author''))
                    (Inr (JStr []))),
             (''deploymentUrl'',
                orE (orE (getProp deployment ''url'') (getProp deployment ''deployment_url''))
                    (Inr (JStr []))),
             (''buildLogsUrl'',
                orE (orE (getProp deployment ''build_logs_url'') (getProp deployment ''logs_url''))
                    (Inr (JStr []))),
             (''commitUrl'', orE (getProp deployment ''commit_url'') (Inr (JStr []))),
             (''buildTime'',
                orE (orE (getProp deployment ''build_time'') (getProp deployment ''duration''))
                    (Inr JNull)),
             (''createdAt'',
                orE (orE (getProp deployment ''created_at'') (getProp deployment ''created_on''))
                    (Inr (JStr now))),
             (''error'',
                orE (orE (getProp deployment ''error'') (getProp deployment ''build_error''))
                    (Inr JNull)),
             (''errorMessage'',
                orE (orE (getProp deployment ''error_message'') (getProp deployment ''message''))
                    (Inr JNull)),
             (''stages'', orE (getProp deployment ''stages'') (Inr (JArr []))),
             (''latestStage'', orE (getProp deployment ''latest_stage'') (Inr JNull)),
             (''raw'', Inr payload)]
          of Inl e \<Rightarrow> Inl e | Inr kvs \<Rightarrow> Inr (JObj kvs)))"

text \<open>
  \<^verbatim>\<open>isValidPayload(payload)\<close>. The result of \<^verbatim>\<open>!!(hasDeployment || hasStatus)\<close>
  is a boolean; the sum type keeps the property reads that could throw.
\<close>

definition isValidPayload :: "jsval \<Rightarrow> js_error + bool" where
  "isValidPayload payload =
     (if \<not> truthy payload \<or> \<not> typeof_object payload then Inr False
      else
        (case orE (orE (getProp payload ''deployment'') (getProp payload ''deployment_id''))
                  (getProp payload ''id'') of
           Inl e \<Rightarrow> Inl e
         | Inr hasDeployment \<Rightarrow>
            (case orE (orE (getProp payload ''status'')
                           (optChain (getProp payload ''deployment'') ''status''))
                      (optChain (getProp payload ''latest_stage'') ''status'') of
               Inl e \<Rightarrow> Inl e
             | Inr hasStatus \<Rightarrow> Inr (truthy (js_or hasDeployment hasStatus)))))"

text \<open>Reading a field of a result that may be an error: \<open>None\<close> when there is no
  result.\<close>

definition field :: "js_error + jsval \<Rightarrow> string \<Rightarrow> jsval option" where
  "field r k = (case r of Inl e \<Rightarrow> None | Inr v \<Rightarrow> Some (readProp v k))"

text \<open>A field of a result holds a truthy value or else its default.\<close>

definition filledWith :: "jsval option \<Rightarrow> jsval \<Rightarrow> bool" where
  "filledWith f dflt = (case f of None \<Rightarrow> False | Some v \<Rightarrow> truthy v \<or> v = dflt)"

text \<open>\<^verbatim>\<open>a?.k\<close> on a value: \<^verbatim>\<open>undefined\<close> when the receiver is nullish.\<close>

definition optProp :: "jsval \<Rightarrow> string \<Rightarrow> jsval" where
  "optProp v k = (if nullish v then JUndefined else readProp v k)"

subsection \<open>The resolution rule in the words of the specification\<close>

text \<open>
  The specification resolves an attribute by walking a fixed list of candidates and
  taking the first one that is present, with a fallback when none is. \<open>resolve\<close> is
  that rule for a given notion of presence; \<open>absent_spec\<close> is the notion the
  specification fixes: \<^verbatim>\<open>undefined\<close>, \<^verbatim>\<open>null\<close> and the empty string are absent,
  everything else (so also \<^verbatim>\<open>0\<close> and \<^verbatim>\<open>false\<close>) is present.
\<close>

definition absent_spec :: "jsval \<Rightarrow> bool" where
  "absent_spec v = (v = JUndefined \<or> v = JNull \<or> v = JStr [])"

fun resolve :: "(jsval \<Rightarrow> bool) \<Rightarrow> jsval list \<Rightarrow> jsval \<Rightarrow> jsval" where
  "resolve present [] d = d"
| "resolve present (c # cs) d = (if present c then c else resolve present cs d)"
section \<open>Numbers and strings of the runtime\<close>

text \<open>
  Three built-ins of the JavaScript runtime are taken as given: the digits of a number
  that is not an integer below \<open>2\<^sup>5\<^sup>3\<close> (\<^verbatim>\<open>Number.prototype.toString\<close>), the
  reading of a string as a number, and \<^verbatim>\<open>JSON.stringify\<close>.
\<close>

record builtins =
  numberToString :: "rat \<Rightarrow> jsstring"
  stringToNumber :: "jsstring \<Rightarrow> jsnum"
  jsonStringify :: "jsval \<Rightarrow> jsstring"

text \<open>Decimal digits of a natural number.\<close>

fun showNat :: "nat \<Rightarrow> string" where
  "showNat n =
     (if n < 10 then [''0123456789'' ! n]
      else showNat (n div 10) @ [''0123456789'' ! (n mod 10)])"

declare showNat.simps [simp del]

text \<open>\<^verbatim>\<open>String(n)\<close> for a number: an integer below \<open>2\<^sup>5\<^sup>3\<close> in absolute value is
  written with all its decimal digits (minus zero as \<^verbatim>\<open>0\<close>); the digits of every
  other finite number are the runtime's.\<close>

fun numToString :: "builtins \<Rightarrow> jsnum \<Rightarrow> jsstring" where
  "numToString bi NaN = us ''NaN''"
| "numToString bi PosInf = us ''Infinity''"
| "numToString bi NegInf = us ''-Infinity''"
| "numToString bi (Fin r) =
     (if of_int \<lfloor>r\<rfloor> = r \<and> \<bar>r\<bar> < 2 ^ 53
      then (if r < 0 then us (''-'' @ showNat (nat (- \<lfloor>r\<rfloor>))) else us (showNat (nat \<lfloor>r\<rfloor>)))
      else numberToString bi r)"

text \<open>
  The double nearest to a rational number, ties going to the even significand: what an
  arithmetic operation of the source returns is its exact result rounded this way.
  \<open>log2floor a\<close> is the exponent of \<open>a > 0\<close>, the greatest \<open>e\<close> with \<open>2\<^sup>e \<le> a\<close>.
\<close>

definition pow2 :: "int \<Rightarrow> rat" where
  "pow2 e = (if 0 \<le> e then 2 ^ nat e else 1 / 2 ^ nat (- e))"

definition log2floor :: "rat \<Rightarrow> int" where
  "log2floor a =
     (if 1 \<le> a then int (floorlog 2 (nat \<lfloor>a\<rfloor>)) - 1
      else - int (floorlog 2 (nat (\<lceil>1 / a\<rceil> - 1))))"

definition roundHalfEven :: "rat \<Rightarrow> int" where
  "roundHalfEven q =
     (let f = \<lfloor>q\<rfloor>; d = q - of_int f
      in if d < 1 / 2 then f else if 1 / 2 < d then f + 1 else if even f then f else f + 1)"

definition toDouble :: "rat \<Rightarrow> jsnum" where
  "toDouble x =
     (if x = 0 then Fin 0
      else
        (let a = \<bar>x\<bar>;
             e = max (log2floor a) (- 1022);
             ulp = pow2 (e - 52);
             v = of_int (roundHalfEven (a / ulp)) * ulp
         in if 2 ^ 1024 \<le> v then (if x < 0 then NegInf else PosInf)
            else Fin (if x < 0 then - v else v)))"

text \<open>\<^verbatim>\<open>Math.round\<close> (ties go up), \<^verbatim>\<open>Math.floor\<close>, and \<^verbatim>\<open>x / c\<close>,
  \<^verbatim>\<open>x % c\<close>, \<^verbatim>\<open>x < c\<close>, \<^verbatim>\<open>x > c\<close> for a positive finite constant \<open>c\<close>. The
  quotient is rounded to a double; the other results are exact. The remainder has the
  sign of the dividend; a comparison with \<^verbatim>\<open>NaN\<close> is false.\<close>

fun js_round :: "jsnum \<Rightarrow> jsnum" where
  "js_round (Fin r) = Fin (of_int \<lfloor>r + 1 / 2\<rfloor>)"
| "js_round n = n"

fun js_floor :: "jsnum \<Rightarrow> jsnum" where
  "js_floor (Fin r) = Fin (of_int \<lfloor>r\<rfloor>)"
| "js_floor n = n"

fun divBy :: "jsnum \<Rightarrow> rat \<Rightarrow> jsnum" where
  "divBy (Fin r) c = toDouble (r / c)"
| "divBy n c = n"

fun modBy :: "jsnum \<Rightarrow> rat \<Rightarrow> jsnum" where
  "modBy (Fin r) c =
     Fin (r - c * of_int (if 0 \<le> r then \<lfloor>r / c\<rfloor> else \<lceil>r / c\<rceil>))"
| "modBy n c = NaN"

fun lt :: "jsnum \<Rightarrow> rat \<Rightarrow> bool" where
  "lt (Fin r) c = (r < c)"
| "lt NegInf c = True"
| "lt n c = False"

fun gt :: "jsnum \<Rightarrow> rat \<Rightarrow> bool" where
  "gt (Fin r) c = (c < r)"
| "gt PosInf c = True"
| "gt n c = False"

text \<open>\<^verbatim>\<open>Array.prototype.join\<close> over elements already converted: the pieces are
  separated by commas, and the first conversion that throws ends the join.\<close>

fun joinE :: "(js_error + jsstring) list \<Rightarrow> js_error + jsstring" where
  "joinE [] = Inr []"
| "joinE [x] = x"
| "joinE (x # y # ys) =
     (case x of Inl e \<Rightarrow> Inl e
      | Inr s \<Rightarrow> (case joinE (y # ys) of Inl e \<Rightarrow> Inl e | Inr t \<Rightarrow> Inr (s @ us '','' @ t)))"

text \<open>
  \<^verbatim>\<open>String(v)\<close>, which is what a template literal \<^verbatim>\<open>`${v}`\<close> applies. An object
  is converted by calling its \<^verbatim>\<open>toString\<close>, then its \<^verbatim>\<open>valueOf\<close>. A parsed JSON
  object inherits both from \<^verbatim>\<open>Object.prototype\<close> and yields \<^verbatim>\<open>[object Object]\<close>,
  unless it has a key \<^verbatim>\<open>toString\<close> of its own: that value is JSON data, not a
  function, so it is skipped, the inherited \<^verbatim>\<open>valueOf\<close> returns the object itself,
  and the conversion throws a TypeError. An array is joined with commas, \<^verbatim>\<open>null\<close>
  and \<^verbatim>\<open>undefined\<close> elements giving the empty string.
\<close>

fun js_toString :: "builtins \<Rightarrow> jsval \<Rightarrow> js_error + jsstring" where
  "js_toString bi JUndefined = Inr (us ''undefined'')"
| "js_toString bi JNull = Inr (us ''null'')"
| "js_toString bi (JBool b) = Inr (if b then us ''true'' else us ''false'')"
| "js_toString bi (JNum n) = Inr (numToString bi n)"
| "js_toString bi (JStr s) = Inr s"
| "js_toString bi (JArr xs) =
     joinE (map (\<lambda>x. if nullish x then Inr [] else js_toString bi x) xs)"
| "js_toString bi (JObj kvs) =
     (if ''toString'' \<in> fst ` set kvs
      then Inl (TypeError (us ''Cannot convert object to primitive value''))
      else Inr (us ''[object Object]''))"

text \<open>\<^verbatim>\<open>Number(v)\<close>, applied by the comparisons, by \<^verbatim>\<open>/\<close> and \<^verbatim>\<open>%\<close>, and by the
  \<^verbatim>\<open>Math\<close> functions. An object or array is first converted to a primitive, which
  for parsed JSON is its string.\<close>

fun toNumber :: "builtins \<Rightarrow> jsval \<Rightarrow> js_error + jsnum" where
  "toNumber bi JUndefined = Inr NaN"
| "toNumber bi JNull = Inr (Fin 0)"
| "toNumber bi (JBool b) = Inr (Fin (if b then 1 else 0))"
| "toNumber bi (JNum n) = Inr n"
| "toNumber bi (JStr s) = Inr (stringToNumber bi s)"
| "toNumber bi v =
     (case js_toString bi v of Inl e \<Rightarrow> Inl e | Inr s \<Rightarrow> Inr (stringToNumber bi s))"

text \<open>\<^verbatim>\<open>name.substring(a, b)\<close> with \<open>a \<le> b\<close>, on the value \<open>v\<close> of the variable
  \<open>name\<close>: only a string has the method.\<close>

fun substring :: "string \<Rightarrow> jsval \<Rightarrow> nat \<Rightarrow> nat \<Rightarrow> js_error + jsstring" where
  "substring name (JStr s) a b = Inr (take (b - a) (drop a s))"
| "substring name v a b = Inl (TypeError (us (name @ ''.substring is not a function'')))"

section \<open>Formatting (cloudflare.js and discord.js)\<close>

text \<open>\<^verbatim>\<open>formatBuildTime(seconds)\<close>; cloudflare.js exports it and discord.js holds a
  private copy with the same body.\<close>

definition formatBuildTime :: "builtins \<Rightarrow> jsval \<Rightarrow> js_error + jsstring" where
  "formatBuildTime bi seconds =
     (if \<not> truthy seconds then Inr (us ''N/A'')
      else
        (case toNumber bi seconds of
           Inl e \<Rightarrow> Inl e
         | Inr n \<Rightarrow>
            if lt n 60 then Inr (numToString bi (js_round n) @ us ''s'')
            else
              (let minutes = js_floor (divBy n 60);
                   remainingSeconds = js_round (modBy n 60)
               in if remainingSeconds = Fin 0 then Inr (numToString bi minutes @ us ''m'')
                  else Inr (numToString bi minutes @ us ''m '' @ numToString bi remainingSeconds
                              @ us ''s''))))"

text \<open>\<^verbatim>\<open>getCommitUrl(repoOwner, repoName, commitHash)\<close>.\<close>

definition getCommitUrl :: "builtins \<Rightarrow> jsval \<Rightarrow> jsval \<Rightarrow> jsval \<Rightarrow> js_error + jsstring" where
  "getCommitUrl bi repoOwner repoName commitHash =
     (if \<not> truthy commitHash then Inr []
      else
        (case js_toString bi repoOwner of Inl e \<Rightarrow> Inl e | Inr ownerText \<Rightarrow>
        (case js_toString bi repoName of Inl e \<Rightarrow> Inl e | Inr nameText \<Rightarrow>
        (case js_toString bi commitHash of Inl e \<Rightarrow> Inl e | Inr hashText \<Rightarrow>
           Inr (us ''https://github.com/'' @ ownerText @ us ''/'' @ nameText @ us ''/commit/''
                  @ hashText)))))"

subsection \<open>The duration format in the words of the specification\<close>

text \<open>
  Under 60 seconds: \<^verbatim>\<open>{n}s\<close> with \<open>n\<close> the nearest integer. From 60 seconds on:
  \<^verbatim>\<open>{m}m\<close> when the rounded remainder is zero, else \<^verbatim>\<open>{m}m {s}s\<close>, with
  \<open>m = floor (seconds / 60)\<close>, the quotient being the double that the division returns,
  and \<open>s = round (seconds mod 60)\<close>.
\<close>

definition durationText :: "builtins \<Rightarrow> rat \<Rightarrow> jsstring" where
  "durationText bi s =
     (let m = js_floor (toDouble (s / 60)); r = \<lfloor>(s - 60 * of_int \<lfloor>s / 60\<rfloor>) + 1 / 2\<rfloor>
      in if s < 60 then numToString bi (Fin (of_int \<lfloor>s + 1 / 2\<rfloor>)) @ us ''s''
         else if r = 0 then numToString bi m @ us ''m''
         else numToString bi m @ us ''m '' @ numToString bi (Fin (of_int r)) @ us ''s'')"
section \<open>The notification document (discord.js)\<close>

record embedField =
  f_name :: string
  f_value :: jsval
  f_inline :: bool

record embed =
  title :: jsstring
  description :: jsstring
  color :: nat
  timestamp :: jsval
  embedFields :: "embedField list"
  footer_text :: jsstring

text \<open>The three glyphs of the title, in code units: a check mark (U+2705), a cross
  mark (U+274C), and a warning sign with its variation selector (U+26A0 U+FE0F).\<close>

definition checkGlyph :: jsstring where
  "checkGlyph = [0x2705]"

definition crossGlyph :: jsstring where
  "crossGlyph = [0x274C]"

definition warningGlyph :: jsstring where
  "warningGlyph = [0x26A0, 0xFE0F]"

text \<open>The description: \<^verbatim>\<open>isFailure && errorMessage ? ... : isSuccess ? ... : ...\<close>.\<close>

definition embedDescription ::
  "builtins \<Rightarrow> jsval \<Rightarrow> jsval \<Rightarrow> jsval \<Rightarrow> jsval \<Rightarrow> js_error + jsstring" where
  "embedDescription bi isSuccess isFailure errorMessage status =
     (if truthy isFailure \<and> truthy errorMessage then
        (case js_toString bi errorMessage of Inl e \<Rightarrow> Inl e | Inr t \<Rightarrow> Inr (us ''**Error:** '' @ t))
      else if truthy isSuccess then Inr (us ''Build completed successfully'')
      else
        (case js_toString bi status of Inl e \<Rightarrow> Inl e | Inr t \<Rightarrow> Inr (us ''Build status: '' @ t)))"

text \<open>One definition for each \<^verbatim>\<open>if (...) { embed.fields.push(...) }\<close> block: the
  fields the block appends, or the error it throws.\<close>

definition branchField :: "builtins \<Rightarrow> jsval \<Rightarrow> js_error + embedField list" where
  "branchField bi branch =
     (if truthy branch then
        (case js_toString bi branch of Inl e \<Rightarrow> Inl e
         | Inr t \<Rightarrow>
            Inr [\<lparr>f_name = ''Branch'', f_value = JStr (us ''`'' @ t @ us ''`''), f_inline = True\<rparr>])
      else Inr [])"

definition commitField :: "builtins \<Rightarrow> jsval \<Rightarrow> jsval \<Rightarrow> js_error + embedField list" where
  "commitField bi commitHash commitUrl =
     (if truthy commitHash then
        (case substring ''commitHash'' commitHash 0 7 of Inl e \<Rightarrow> Inl e
         | Inr shortHash \<Rightarrow>
            (case (if truthy commitUrl then
                     (case js_toString bi commitUrl of Inl e \<Rightarrow> Inl e
                      | Inr u \<Rightarrow> Inr (us ''[`'' @ shortHash @ us ''`]('' @ u @ us '')''))
                   else Inr (us ''`'' @ shortHash @ us ''`'')) of
               Inl e \<Rightarrow> Inl e
             | Inr commitText \<Rightarrow>
                Inr [\<lparr>f_name = ''Commit'', f_value = JStr commitText, f_inline = True\<rparr>]))
      else Inr [])"

definition buildTimeField :: "builtins \<Rightarrow> jsval \<Rightarrow> js_error + embedField list" where
  "buildTimeField bi buildTime =
     (if buildTime \<noteq> JNull then
        (case formatBuildTime bi buildTime of Inl e \<Rightarrow> Inl e
         | Inr t \<Rightarrow> Inr [\<lparr>f_name = ''Build Time'', f_value = JStr t, f_inline = True\<rparr>])
      else Inr [])"

definition authorField :: "jsval \<Rightarrow> js_error + embedField list" where
  "authorField commitAuthor =
     (if truthy commitAuthor
      then Inr [\<lparr>f_name = ''Author'', f_value = commitAuthor, f_inline = True\<rparr>]
      else Inr [])"

definition commitMessageField :: "builtins \<Rightarrow> jsval \<Rightarrow> js_error + embedField list" where
  "commitMessageField bi commitMessage =
     (if truthy commitMessage then
        (case toNumber bi (readProp commitMessage ''length'') of Inl e \<Rightarrow> Inl e
         | Inr len \<Rightarrow>
            (case (if gt len 200 then
                     (case substring ''commitMessage'' commitMessage 0 197 of Inl e \<Rightarrow> Inl e
                      | Inr t \<Rightarrow> Inr (JStr (t @ us ''...'')))
                   else Inr commitMessage) of
               Inl e \<Rightarrow> Inl e
             | Inr truncatedMessage \<Rightarrow>
                Inr [\<lparr>f_name = ''Commit Message'', f_value = truncatedMessage, f_inline = False\<rparr>]))
      else Inr [])"

definition deploymentField :: "builtins \<Rightarrow> jsval \<Rightarrow> js_error + embedField list" where
  "deploymentField bi deploymentUrl =
     (if truthy deploymentUrl then
        (case js_toString bi deploymentUrl of Inl e \<Rightarrow> Inl e
         | Inr u \<Rightarrow>
            Inr [\<lparr>f_name = ''Deployment'',
                  f_value = JStr (us ''[View Deployment]('' @ u @ us '')''),
                  f_inline = True\<rparr>])
      else Inr [])"

definition buildLogsField :: "builtins \<Rightarrow> jsval \<Rightarrow> js_error + embedField list" where
  "buildLogsField bi buildLogsUrl =
     (if truthy buildLogsUrl then
        (case js_toString bi buildLogsUrl of Inl e \<Rightarrow> Inl e
         | Inr u \<Rightarrow>
            Inr [\<lparr>f_name = ''Build Logs'', f_value = JStr (us ''[View Logs]('' @ u @ us '')''),
                  f_inline = True\<rparr>])
      else Inr [])"

text \<open>The error is cut to 1000 code units: the string itself, or else what
  \<^verbatim>\<open>JSON.stringify\<close> makes of it.\<close>

definition errorDetailsField :: "builtins \<Rightarrow> jsval \<Rightarrow> jsval \<Rightarrow> js_error + embedField list" where
  "errorDetailsField bi isFailure error =
     (if truthy isFailure \<and> truthy error then
        (let errorText = (case error of JStr s \<Rightarrow> take 1000 s
                          | _ \<Rightarrow> take 1000 (jsonStringify bi error))
         in Inr [\<lparr>f_name = ''Error Details'', f_value = JStr (us ''```'' @ errorText @ us ''```''),
                  f_inline = False\<rparr>])
      else Inr [])"

text \<open>The blocks run one after the other; the first one that throws ends the
  function.\<close>

fun concatE :: "(js_error + 'a list) list \<Rightarrow> js_error + 'a list" where
  "concatE [] = Inr []"
| "concatE (x # xs) =
     (case x of Inl e \<Rightarrow> Inl e
      | Inr ys \<Rightarrow> (case concatE xs of Inl e \<Rightarrow> Inl e | Inr zs \<Rightarrow> Inr (ys @ zs)))"

text \<open>\<^verbatim>\<open>createBuildEmbed(deploymentInfo)\<close>.\<close>

definition createBuildEmbed :: "builtins \<Rightarrow> jsval \<Rightarrow> js_error + embed" where
  "createBuildEmbed bi deploymentInfo =
     (if nullish deploymentInfo
      then Inl (TypeError (us (''Cannot destructure property '' @ [CHR 0x27] @ ''projectName''
                                 @ [CHR 0x27] @ '' of '' @ [CHR 0x27] @ ''deploymentInfo''
                                 @ [CHR 0x27] @ '' as it is ''
                                 @ (if deploymentInfo = JNull then ''null'' else ''undefined'')
                                 @ ''.'')))
      else
        (let projectName = readProp deploymentInfo ''projectName'';
             status = readProp deploymentInfo ''status'';
             isSuccess = readProp deploymentInfo ''isSuccess'';
             isFailure = readProp deploymentInfo ''isFailure'';
             branch = readProp deploymentInfo ''branch'';
             commitHash = readProp deploymentInfo ''commitHash'';
             commitMessage = readProp deploymentInfo ''commitMessage'';
             commitAuthor = readProp deploymentInfo ''commitAuthor'';
             deploymentUrl = readProp deploymentInfo ''deploymentUrl'';
             buildLogsUrl = readProp deploymentInfo ''buildLogsUrl'';
             commitUrl = readProp deploymentInfo ''commitUrl'';
             buildTime = readProp deploymentInfo ''buildTime'';
             error = readProp deploymentInfo ''error'';
             errorMessage = readProp deploymentInfo ''errorMessage'';
             createdAt = readProp deploymentInfo ''createdAt'';
             embedColor = (if truthy isSuccess then 0x00ff00
                           else if truthy isFailure then 0xff0000 else 0xffff00);
             statusEmoji = (if truthy isSuccess then checkGlyph
                            else if truthy isFailure then crossGlyph else warningGlyph);
             statusText = (if truthy isSuccess then ''Success''
                           else if truthy isFailure then ''Failure'' else ''Unknown'')
         in
           (case embedDescription bi isSuccess isFailure errorMessage status of
              Inl e \<Rightarrow> Inl e
            | Inr descriptionText \<Rightarrow>
           (case js_toString bi projectName of
              Inl e \<Rightarrow> Inl e
            | Inr projectText \<Rightarrow>
           (case js_toString bi (js_or (readProp deploymentInfo ''id'') (JStr (us ''unknown''))) of
              Inl e \<Rightarrow> Inl e
            | Inr idText \<Rightarrow>
           (case concatE
                   [branchField bi branch,
                    commitField bi commitHash commitUrl,
                    buildTimeField bi buildTime,
                    authorField commitAuthor,
                    commitMessageField bi commitMessage,
                    deploymentField bi deploymentUrl,
                    buildLogsField bi buildLogsUrl,
                    errorDetailsField bi isFailure error] of
              Inl e \<Rightarrow> Inl e
            | Inr fs \<Rightarrow>
                Inr \<lparr>title = statusEmoji @ us ('' Build '' @ statusText @ '' - '') @ projectText,
                     description = descriptionText,
                     color = embedColor,
                     timestamp = createdAt,
                     embedFields = fs,
                     footer_text = us ''Deployment ID: '' @ idText\<rparr>))))))"

section \<open>The Discord client (discord.js)\<close>

text \<open>
  What \<^verbatim>\<open>DiscordBot.sendMessage\<close> hands to \<^verbatim>\<open>fetch\<close>: the URL, the
  \<^verbatim>\<open>Authorization\<close> header and the embeds of the message body. The answer of the
  network is either a rejection (with the message of the error) or a response: its
  status, its status text, its body as text, and what \<^verbatim>\<open>response.json()\<close> makes of
  the body (the parsed value, or the message of the SyntaxError).
\<close>

record delivery =
  d_url :: jsstring
  d_authorization :: jsstring
  d_embeds :: "embed list"

datatype fetch_result =
    Rejected jsstring
  | Responded nat jsstring jsstring "jsstring + jsval"

text \<open>\<^verbatim>\<open>sendMessage(channelId, messageData)\<close>: the result or the error thrown, and
  the calls made to the Discord API. \<^verbatim>\<open>response.ok\<close> is a status from 200 to 299.\<close>

definition sendMessage ::
  "(delivery \<Rightarrow> fetch_result) \<Rightarrow> jsstring \<Rightarrow> jsstring \<Rightarrow> embed list
     \<Rightarrow> (js_error + jsval) \<times> delivery list" where
  "sendMessage fetch token channelId embeds =
     (let d = \<lparr>d_url = us ''https://discord.com/api/v10'' @ us ''/channels/'' @ channelId
                          @ us ''/messages'',
                d_authorization = us ''Bot '' @ token,
                d_embeds = embeds\<rparr>
      in case fetch d of
           Rejected m \<Rightarrow> (Inl (Error m), [d])
         | Responded status statusText errorText json \<Rightarrow>
             if \<not> (200 \<le> status \<and> status \<le> 299)
             then (Inl (Error (us ''Discord API error: '' @ us (showNat status) @ us '' ''
                                 @ statusText @ us '' - '' @ errorText)), [d])
             else (case json of
                     Inl m \<Rightarrow> (Inl (SyntaxError m), [d])
                   | Inr j \<Rightarrow> (Inr j, [d])))"

text \<open>\<^verbatim>\<open>sendBuildNotification(channelId, deploymentInfo)\<close>.\<close>

definition sendBuildNotification ::
  "builtins \<Rightarrow> (delivery \<Rightarrow> fetch_result) \<Rightarrow> jsstring \<Rightarrow> jsstring \<Rightarrow> jsval
     \<Rightarrow> (js_error + jsval) \<times> delivery list" where
  "sendBuildNotification bi fetch token channelId deploymentInfo =
     (case createBuildEmbed bi deploymentInfo of
        Inl e \<Rightarrow> (Inl e, [])
      | Inr e \<Rightarrow> sendMessage fetch token channelId [e])"

section \<open>The webhook handler (index.js)\<close>

record env =
  DISCORD_BOT_TOKEN :: "jsstring option"
  DISCORD_CHANNEL_ID :: "jsstring option"
  WEBHOOK_SECRET :: "jsstring option"
  GITHUB_REPO_OWNER :: "jsstring option"
  GITHUB_REPO_NAME :: "jsstring option"

text \<open>A request: what \<^verbatim>\<open>request.headers.get('X-Webhook-Secret')\<close> returns (\<open>None\<close> for
  \<^verbatim>\<open>null\<close>, the header is not there) and what \<^verbatim>\<open>request.json()\<close> resolves to
  (\<open>None\<close> when it rejects).\<close>

record request =
  secretHeader :: "jsstring option"
  jsonBody :: "jsval option"

record response =
  r_status :: nat
  r_headers :: "(string \<times> string) list"
  r_body :: jsval

text \<open>
  What a call of the handler amounts to: the response, the calls made to the Discord
  API, and the number of times the loop of \<^verbatim>\<open>secureCompare\<close> ran (\<open>None\<close> when
  \<^verbatim>\<open>secureCompare\<close> was not called).
\<close>

record outcome =
  response :: response
  deliveries :: "delivery list"
  scanned :: "nat option"

definition envVal :: "jsstring option \<Rightarrow> jsval" where
  "envVal x = (case x of None \<Rightarrow> JUndefined | Some s \<Rightarrow> JStr s)"

definition envText :: "jsstring option \<Rightarrow> jsstring" where
  "envText x = (case x of None \<Rightarrow> us ''undefined'' | Some s \<Rightarrow> s)"

definition headerVal :: "jsstring option \<Rightarrow> jsval" where
  "headerVal x = (case x of None \<Rightarrow> JNull | Some s \<Rightarrow> JStr s)"

text \<open>\<^verbatim>\<open>jsonResponse(data, status)\<close>; the body is kept as the data that
  \<^verbatim>\<open>JSON.stringify\<close> is applied to.\<close>

definition jsonResponse :: "jsval \<Rightarrow> nat \<Rightarrow> response" where
  "jsonResponse data status =
     \<lparr>r_status = status,
      r_headers = [(''Content-Type'', ''application/json''), (''Access-Control-Allow-Origin'', ''*'')],
      r_body = data\<rparr>"

unbundle bit_operations_syntax

text \<open>\<^verbatim>\<open>s.charCodeAt(i)\<close>; out of range it is \<^verbatim>\<open>NaN\<close>, which \<^verbatim>\<open>^\<close> reads as 0.\<close>

definition charCodeAt :: "jsstring \<Rightarrow> nat \<Rightarrow> int" where
  "charCodeAt s i = (if i < length s then uint (s ! i) else 0)"

text \<open>The loop of \<^verbatim>\<open>secureCompare\<close>, from index \<open>i\<close> on: the accumulated
  \<open>result\<close>, and the number of times the body ran.\<close>

function scanLoop :: "jsstring \<Rightarrow> jsstring \<Rightarrow> nat \<Rightarrow> int \<Rightarrow> nat \<Rightarrow> int \<times> nat" where
  "scanLoop a b i result steps =
     (if i < length a
      then scanLoop a b (Suc i) (result OR (charCodeAt a i XOR charCodeAt b i)) (Suc steps)
      else (result, steps))"
  by pat_completeness auto
termination
  by (relation "measure (\<lambda>(a, b, i, result, steps). length a - i)") auto

declare scanLoop.simps [simp del]

text \<open>\<^verbatim>\<open>secureCompare(a, b)\<close>: the answer and the number of loop iterations.\<close>

fun secureCompare :: "jsval \<Rightarrow> jsval \<Rightarrow> bool \<times> nat" where
  "secureCompare (JStr a) (JStr b) =
     (if length a \<noteq> length b then (False, 0)
      else (let (result, steps) = scanLoop a b 0 0 0 in (result = 0, steps)))"
| "secureCompare a b = (False, 0)"

text \<open>\<^verbatim>\<open>o.k = v\<close> on an object.\<close>

fun assignProp :: "jsval \<Rightarrow> string \<Rightarrow> jsval \<Rightarrow> jsval" where
  "assignProp (JObj kvs) k v =
     JObj (if k \<in> fst ` set kvs
           then map (\<lambda>(k', v'). if k' = k then (k', v) else (k', v')) kvs
           else kvs @ [(k, v)])"
| "assignProp x k v = x"

text \<open>The block that fills in the commit URL, in src/index.js.\<close>

definition fillCommitUrl :: "builtins \<Rightarrow> env \<Rightarrow> jsval \<Rightarrow> js_error + jsval" where
  "fillCommitUrl bi env deploymentInfo =
     (let repoOwner = js_or (js_or (envVal (GITHUB_REPO_OWNER env)) (readProp deploymentInfo ''repoOwner''))
                            (JStr (us ''TLC-Community-Survey''));
          repoName = js_or (js_or (envVal (GITHUB_REPO_NAME env)) (readProp deploymentInfo ''repoName''))
                           (JStr (us ''Survey''))
      in if truthy (readProp deploymentInfo ''commitHash'') \<and> \<not> truthy (readProp deploymentInfo ''commitUrl'')
         then (case getCommitUrl bi repoOwner repoName (readProp deploymentInfo ''commitHash'') of
                 Inl e \<Rightarrow> Inl e
               | Inr u \<Rightarrow> Inr (assignProp deploymentInfo ''commitUrl'' (JStr u)))
         else Inr deploymentInfo)"

text \<open>The same block in the revision of the handler kept in part\_000.\<close>

definition fillCommitUrl_part_000 :: "builtins \<Rightarrow> env \<Rightarrow> jsval \<Rightarrow> js_error + jsval" where
  "fillCommitUrl_part_000 bi env deploymentInfo =
     (let repoOwner = js_or (envVal (GITHUB_REPO_OWNER env)) (JStr (us ''fringemonkey''));
          repoName = js_or (envVal (GITHUB_REPO_NAME env)) (JStr (us ''cocs-bot''))
      in if truthy (readProp deploymentInfo ''commitHash'') \<and> \<not> truthy (readProp deploymentInfo ''commitUrl'')
         then (case getCommitUrl bi repoOwner repoName (readProp deploymentInfo ''commitHash'') of
                 Inl e \<Rightarrow> Inl e
               | Inr u \<Rightarrow> Inr (assignProp deploymentInfo ''commitUrl'' (JStr u)))
         else Inr deploymentInfo)"

text \<open>
  From the skip test to the final response, the same lines in both revisions: a status
  that is neither success nor failure is answered without a delivery; otherwise the
  notification is sent, the log line is built, and the acknowledgement is returned.
\<close>

definition notify ::
  "builtins \<Rightarrow> (delivery \<Rightarrow> fetch_result) \<Rightarrow> env \<Rightarrow> jsval \<Rightarrow> (js_error + response) \<times> delivery list" where
  "notify bi fetch env deploymentInfo =
     (if \<not> truthy (readProp deploymentInfo ''isSuccess'') \<and> \<not> truthy (readProp deploymentInfo ''isFailure'')
      then (Inr (jsonResponse
                   (JObj [(''message'', JStr (us ''Build still in progress, skipping notification''))])
                   200), [])
      else
        (case sendBuildNotification bi fetch (envText (DISCORD_BOT_TOKEN env))
                (envText (DISCORD_CHANNEL_ID env)) deploymentInfo of
           (Inl e, ds) \<Rightarrow> (Inl e, ds)
         | (Inr sent, ds) \<Rightarrow>
            (case js_toString bi (readProp deploymentInfo ''id'') of
               Inl e \<Rightarrow> (Inl e, ds)
             | Inr idText \<Rightarrow>
            (case js_toString bi (readProp deploymentInfo ''status'') of
               Inl e \<Rightarrow> (Inl e, ds)
             | Inr statusText \<Rightarrow>
                (Inr (jsonResponse
                        (JObj [(''success'', JBool True),
                               (''deploymentId'', readProp deploymentInfo ''id''),
                               (''status'', readProp deploymentInfo ''status'')]) 200), ds)))))"

text \<open>The body of the \<^verbatim>\<open>try\<close> block of \<^verbatim>\<open>handleWebhook\<close> in src/index.js: the
  response returned or the error thrown, the deliveries made, and the iterations of
  the comparison loop.\<close>

definition handleWebhook_try ::
  "builtins \<Rightarrow> jsstring \<Rightarrow> (delivery \<Rightarrow> fetch_result) \<Rightarrow> env \<Rightarrow> request
     \<Rightarrow> (js_error + response) \<times> delivery list \<times> nat option" where
  "handleWebhook_try bi now fetch env req =
     (if \<not> truthy (envVal (DISCORD_BOT_TOKEN env))
      then (Inr (jsonResponse (JObj [(''error'', JStr (us ''Bot token not configured''))]) 500), [], None)
      else if \<not> truthy (envVal (DISCORD_CHANNEL_ID env))
      then (Inr (jsonResponse (JObj [(''error'', JStr (us ''Discord channel ID not configured''))]) 500),
            [], None)
      else
        (let (authorized, sc) =
               (if truthy (envVal (WEBHOOK_SECRET env))
                then (let (equal, steps) = secureCompare (headerVal (secretHeader req))
                                                          (envVal (WEBHOOK_SECRET env))
                      in (equal, Some steps))
                else (True, None))
         in if \<not> authorized
            then (Inr (jsonResponse (JObj [(''error'', JStr (us ''Unauthorized''))]) 401), [], sc)
            else
              (case jsonBody req of
                 None \<Rightarrow>
                   (Inr (jsonResponse (JObj [(''error'', JStr (us ''Invalid JSON payload''))]) 400), [], sc)
               | Some payload \<Rightarrow>
                  (case isValidPayload payload of
                     Inl e \<Rightarrow> (Inl e, [], sc)
                   | Inr valid \<Rightarrow>
                      if \<not> valid
                      then (Inr (jsonResponse
                                   (JObj [(''error'', JStr (us ''Invalid payload structure''))]) 400),
                            [], sc)
                      else
                        (case parseDeploymentEvent now payload of
                           Inl e \<Rightarrow> (Inl e, [], sc)
                         | Inr parsed \<Rightarrow>
                            (case fillCommitUrl bi env parsed of
                               Inl e \<Rightarrow> (Inl e, [], sc)
                             | Inr deploymentInfo \<Rightarrow>
                                (case notify bi fetch env deploymentInfo of
                                   (r, ds) \<Rightarrow> (r, ds, sc))))))))"

text \<open>\<^verbatim>\<open>handleWebhook(request, env)\<close> of src/index.js: the \<^verbatim>\<open>catch\<close> block answers
  every error with the same body.\<close>

definition handleWebhook ::
  "builtins \<Rightarrow> jsstring \<Rightarrow> (delivery \<Rightarrow> fetch_result) \<Rightarrow> env \<Rightarrow> request \<Rightarrow> outcome" where
  "handleWebhook bi now fetch env req =
     (case handleWebhook_try bi now fetch env req of
        (Inr r, ds, sc) \<Rightarrow> \<lparr>response = r, deliveries = ds, scanned = sc\<rparr>
      | (Inl error, ds, sc) \<Rightarrow>
          \<lparr>response = jsonResponse (JObj [(''error'', JStr (us ''Internal server error''))]) 500,
           deliveries = ds, scanned = sc\<rparr>)"

text \<open>The \<^verbatim>\<open>try\<close> block of the revision of \<^verbatim>\<open>handleWebhook\<close> kept in part\_000:
  the secret is compared with \<^verbatim>\<open>!==\<close>, and \<^verbatim>\<open>secureCompare\<close> does not exist.\<close>

definition handleWebhook_part_000_try ::
  "builtins \<Rightarrow> jsstring \<Rightarrow> (delivery \<Rightarrow> fetch_result) \<Rightarrow> env \<Rightarrow> request
     \<Rightarrow> (js_error + response) \<times> delivery list \<times> nat option" where
  "handleWebhook_part_000_try bi now fetch env req =
     (if \<not> truthy (envVal (DISCORD_BOT_TOKEN env))
      then (Inr (jsonResponse (JObj [(''error'', JStr (us ''Bot token not configured''))]) 500), [], None)
      else if \<not> truthy (envVal (DISCORD_CHANNEL_ID env))
      then (Inr (jsonResponse (JObj [(''error'', JStr (us ''Discord channel ID not configured''))]) 500),
            [], None)
      else if truthy (envVal (WEBHOOK_SECRET env))
              \<and> headerVal (secretHeader req) \<noteq> envVal (WEBHOOK_SECRET env)
      then (Inr (jsonResponse (JObj [(''error'', JStr (us ''Unauthorized''))]) 401), [], None)
      else
        (case jsonBody req of
           None \<Rightarrow>
             (Inr (jsonResponse (JObj [(''error'', JStr (us ''Invalid JSON payload''))]) 400), [], None)
         | Some payload \<Rightarrow>
            (case isValidPayload payload of
               Inl e \<Rightarrow> (Inl e, [], None)
             | Inr valid \<Rightarrow>
                if \<not> valid
                then (Inr (jsonResponse
                             (JObj [(''error'', JStr (us ''Invalid payload structure''))]) 400),
                      [], None)
                else
                  (case parseDeploymentEvent now payload of
                     Inl e \<Rightarrow> (Inl e, [], None)
                   | Inr parsed \<Rightarrow>
                      (case fillCommitUrl_part_000 bi env parsed of
                         Inl e \<Rightarrow> (Inl e, [], None)
                       | Inr deploymentInfo \<Rightarrow>
                          (case notify bi fetch env deploymentInfo of
                             (r, ds) \<Rightarrow> (r, ds, None)))))))"

text \<open>\<^verbatim>\<open>handleWebhook(request, env)\<close> of part\_000: the \<^verbatim>\<open>catch\<close> block adds the
  message of the error to the body.\<close>

definition handleWebhook_part_000 ::
  "builtins \<Rightarrow> jsstring \<Rightarrow> (delivery \<Rightarrow> fetch_result) \<Rightarrow> env \<Rightarrow> request \<Rightarrow> outcome" where
  "handleWebhook_part_000 bi now fetch env req =
     (case handleWebhook_part_000_try bi now fetch env req of
        (Inr r, ds, sc) \<Rightarrow> \<lparr>response = r, deliveries = ds, scanned = sc\<rparr>
      | (Inl error, ds, sc) \<Rightarrow>
          \<lparr>response = jsonResponse (JObj [(''error'', JStr (us ''Internal server error'')),
                                          (''message'', JStr (message error))]) 500,
           deliveries = ds, scanned = sc\<rparr>)"

section \<open>Sample inputs\<close>

text \<open>A runtime, two environments, two answers of the Discord API, a payload and a long
  commit message, for the concrete runs below.\<close>

definition sampleBuiltins :: builtins where
  "sampleBuiltins =
     \<lparr>numberToString = (\<lambda>r. us ''0.5''), stringToNumber = (\<lambda>s. NaN),
      jsonStringify = (\<lambda>v. us ''{}'')\<rparr>"

definition sampleEnv :: env where
  "sampleEnv =
     \<lparr>DISCORD_BOT_TOKEN = Some (us ''token''), DISCORD_CHANNEL_ID = Some (us ''42''),
      WEBHOOK_SECRET = None, GITHUB_REPO_OWNER = None, GITHUB_REPO_NAME = None\<rparr>"

definition sampleEnvSecret :: env where
  "sampleEnvSecret = sampleEnv\<lparr>WEBHOOK_SECRET := Some (us ''abcd'')\<rparr>"

definition discordOk :: "delivery \<Rightarrow> fetch_result" where
  "discordOk d = Responded 200 (us ''OK'') (us ''{}'') (Inr (JObj []))"

definition discordForbidden :: "delivery \<Rightarrow> fetch_result" where
  "discordForbidden d =
     Responded 403 (us ''Forbidden'') (us ''Missing Access'') (Inr (JObj []))"

definition sampleTime :: jsstring where
  "sampleTime = us ''2024-01-01T00:00:00.000Z''"

definition successPayload :: jsval where
  "successPayload =
     JObj [(''deployment'',
            JObj [(''id'', JStr (us ''test'')), (''status'', JStr (us ''success'')),
                  (''branch'', JStr (us ''main''))])]"

definition longMessage :: jsstring where
  "longMessage = replicate 250 0x2705"

text \<open>The field of the document that carries the commit message.\<close>

definition isCommitMessage :: "embedField \<Rightarrow> bool" where
  "isCommitMessage f = (f_name f = ''Commit Message'')"

section \<open>Strings\<close>

lemma unat_code_unit: "unat (of_nat (of_char c) :: 16 word) = of_char c"
proof -
  have "(of_char c :: nat) < 256" by (cases c) simp
  then have "(of_char c :: nat) < 65536" by linarith
  then show ?thesis by (simp add: unat_of_nat)
qed

lemma us_eq_iff [simp]: "us a = us b \<longleftrightarrow> a = b"
proof
  assume "us a = us b"
  then have "map unat (us a) = map unat (us b)" by simp
  then have "map (of_char :: char \<Rightarrow> nat) a = map of_char b"
    by (simp add: us_def unat_code_unit comp_def)
  then show "a = b" by (simp add: inj_map_eq_map [OF inj_of_char])
qed simp

lemma us_Nil [simp]: "us [] = []"
  by (simp add: us_def)

lemma us_eq_Nil [simp]: "us s = [] \<longleftrightarrow> s = []"
  by (simp add: us_def)

lemma length_us [simp]: "length (us s) = length s"
  by (simp add: us_def)

section \<open>Property reads and the operator \<^verbatim>\<open>||\<close>\<close>

lemma truthy_not_nullish: "truthy v \<Longrightarrow> \<not> nullish v"
  by (cases v) auto

lemma getProp_ok: "\<not> nullish v \<Longrightarrow> getProp v k = Inr (readProp v k)"
  by (simp add: getProp_def)

lemma orE_Inr: "orE (Inr a) (Inr b) = Inr (js_or a b)"
  by (simp add: orE_def js_or_def)

lemma optChain_Inr: "optChain (Inr v) k = Inr (optProp v k)"
  by (simp add: optChain_def optProp_def getProp_def)

lemma strictEqStr_Inr: "strictEqStr (Inr v) s = Inr (JBool (v = JStr (us s)))"
  by (simp add: strictEqStr_def)

lemma deployment_not_nullish: "\<not> nullish p \<Longrightarrow> \<not> nullish (js_or a p)"
  by (auto simp: js_or_def dest: truthy_not_nullish)

lemma js_or_resolve1: "js_or a d = resolve truthy [a] d"
  by (simp add: js_or_def)

lemma js_or_resolve2: "js_or (js_or a b) d = resolve truthy [a, b] d"
  by (simp add: js_or_def)

section \<open>The parser\<close>

text \<open>On a payload that is neither \<^verbatim>\<open>undefined\<close> nor \<^verbatim>\<open>null\<close> the parser returns
  this object; \<open>d\<close> is the value of \<^verbatim>\<open>payload.deployment || payload\<close>.\<close>

lemma parse_object:
  assumes "\<not> nullish payload" and "d = js_or (readProp payload ''deployment'') payload"
  shows "parseDeploymentEvent now payload = Inr (JObj
    [(''id'', js_or (readProp d ''id'') (readProp d ''deployment_id'')),
     (''projectName'',
        js_or (js_or (readProp d ''project_name'') (readProp payload ''project_name''))
              (JStr (us ''tlc-survey''))),
     (''environment'', js_or (readProp d ''environment'') (JStr (us ''production''))),
     (''status'',
        js_or (js_or (optProp (readProp d ''latest_stage'') ''status'') (readProp d ''status''))
              (JStr (us ''unknown''))),
     (''isSuccess'',
        JBool (js_or (optProp (readProp d ''latest_stage'') ''status'') (readProp d ''status'')
                 = JStr (us ''success''))),
     (''isFailure'',
        JBool (js_or (optProp (readProp d ''latest_stage'') ''status'') (readProp d ''status'')
                 = JStr (us ''failure''))),
     (''branch'', js_or (js_or (readProp d ''branch'') (readProp d ''git_branch'')) (JStr (us ''main''))),
     (''commitHash'',
        js_or (js_or (readProp d ''commit_hash'') (readProp d ''git_commit_hash'')) (JStr [])),
     (''commitMessage'', js_or (readProp d ''commit_message'') (JStr [])),
     (''commitAuthor'', js_or (js_or (readProp d ''commit_author'') (readProp d ''author'')) (JStr [])),
     (''deploymentUrl'', js_or (js_or (readProp d ''url'') (readProp d ''deployment_url'')) (JStr [])),
     (''buildLogsUrl'',
        js_or (js_or (readProp d ''build_logs_url'') (readProp d ''logs_url'')) (JStr [])),
     (''commitUrl'', js_or (readProp d ''commit_url'') (JStr [])),
     (''buildTime'', js_or (js_or (readProp d ''build_time'') (readProp d ''duration'')) JNull),
     (''createdAt'', js_or (js_or (readProp d ''created_at'') (readProp d ''created_on'')) (JStr now)),
     (''error'', js_or (js_or (readProp d ''error'') (readProp d ''build_error'')) JNull),
     (''errorMessage'', js_or (js_or (readProp d ''error_message'') (readProp d ''message'')) JNull),
     (''stages'', js_or (readProp d ''stages'') (JArr [])),
     (''latestStage'', js_or (readProp d ''latest_stage'') JNull),
     (''raw'', payload)])"
proof -
  have nd: "\<not> nullish d"
    using assms by (simp add: deployment_not_nullish)
  have dep: "orE (getProp payload ''deployment'') (Inr payload) = Inr d"
    using assms by (simp add: getProp_ok orE_Inr)
  show ?thesis
    unfolding parseDeploymentEvent_def dep
    using nd assms(1)
    by (simp add: getProp_ok orE_Inr optChain_Inr strictEqStr_Inr)
qed

lemma parse_Inr_not_nullish: "parseDeploymentEvent now payload = Inr r \<Longrightarrow> \<not> nullish payload"
  by (auto simp: parseDeploymentEvent_def getProp_def orE_def)

lemma isValidPayload_not_nullish: "isValidPayload p = Inr True \<Longrightarrow> \<not> nullish p"
  by (cases p) (auto simp: isValidPayload_def)

text \<open>
  C1, as stated: an attribute is the first candidate that is not \<^verbatim>\<open>undefined\<close>,
  \<^verbatim>\<open>null\<close> or the empty string, so a first candidate holding \<^verbatim>\<open>0\<close> is the resolved
  value. The parser does otherwise: with \<^verbatim>\<open>build_time\<close> 0 and \<^verbatim>\<open>duration\<close> 5, the
  rule of the specification resolves \<^verbatim>\<open>buildTime\<close> to 0 and the parser to 5; with
  \<^verbatim>\<open>error\<close> \<^verbatim>\<open>false\<close> and no \<^verbatim>\<open>build_error\<close>, the rule gives \<^verbatim>\<open>false\<close> and the
  parser \<^verbatim>\<open>null\<close>.
\<close>

theorem parse_zero_is_skipped:
  "\<not> absent_spec (JNum (Fin 0))
   \<and> resolve (\<lambda>v. \<not> absent_spec v) [JNum (Fin 0), JNum (Fin 5)] JNull = JNum (Fin 0)
   \<and> field (parseDeploymentEvent (us ''2024-01-01T00:00:00.000Z'')
               (JObj [(''deployment'',
                       JObj [(''build_time'', JNum (Fin 0)), (''duration'', JNum (Fin 5))])]))
         ''buildTime'' = Some (JNum (Fin 5))
   \<and> \<not> absent_spec (JBool False)
   \<and> resolve (\<lambda>v. \<not> absent_spec v) [JBool False, JUndefined] JNull = JBool False
   \<and> field (parseDeploymentEvent (us ''2024-01-01T00:00:00.000Z'')
               (JObj [(''deployment'', JObj [(''error'', JBool False)])]))
         ''error'' = Some JNull"
  by (simp add: absent_spec_def field_def parseDeploymentEvent_def getProp_def orE_def optChain_def
      strictEqStr_def)

text \<open>
  C1, amended: every attribute is the first candidate of its fixed list that is truthy,
  and the fallback when none is (the default, or for \<^verbatim>\<open>id\<close> the value of
  \<^verbatim>\<open>deployment_id\<close> whatever it is). A candidate counts as absent exactly when it is
  falsy: \<^verbatim>\<open>undefined\<close>, \<^verbatim>\<open>null\<close>, the empty string, and also \<^verbatim>\<open>0\<close>, \<^verbatim>\<open>NaN\<close> and
  \<^verbatim>\<open>false\<close>; a falsy first candidate is skipped and the rest of the list decides.
\<close>

theorem parse_first_truthy_wins:
  assumes "\<not> nullish payload" and "d = js_or (readProp payload ''deployment'') payload"
  shows
   "field (parseDeploymentEvent now payload) ''id''
      = Some (resolve truthy [readProp d ''id''] (readProp d ''deployment_id''))
    \<and> field (parseDeploymentEvent now payload) ''projectName''
      = Some (resolve truthy [readProp d ''project_name'', readProp payload ''project_name'']
                (JStr (us ''tlc-survey'')))
    \<and> field (parseDeploymentEvent now payload) ''environment''
      = Some (resolve truthy [readProp d ''environment''] (JStr (us ''production'')))
    \<and> field (parseDeploymentEvent now payload) ''status''
      = Some (resolve truthy [optProp (readProp d ''latest_stage'') ''status'', readProp d ''status'']
                (JStr (us ''unknown'')))
    \<and> field (parseDeploymentEvent now payload) ''branch''
      = Some (resolve truthy [readProp d ''branch'', readProp d ''git_branch''] (JStr (us ''main'')))
    \<and> field (parseDeploymentEvent now payload) ''commitHash''
      = Some (resolve truthy [readProp d ''commit_hash'', readProp d ''git_commit_hash''] (JStr []))
    \<and> field (parseDeploymentEvent now payload) ''commitMessage''
      = Some (resolve truthy [readProp d ''commit_message''] (JStr []))
    \<and> field (parseDeploymentEvent now payload) ''commitAuthor''
      = Some (resolve truthy [readProp d ''commit_author'', readProp d ''author''] (JStr []))
    \<and> field (parseDeploymentEvent now payload) ''deploymentUrl''
      = Some (resolve truthy [readProp d ''url'', readProp d ''deployment_url''] (JStr []))
    \<and> field (parseDeploymentEvent now payload) ''buildLogsUrl''
      = Some (resolve truthy [readProp d ''build_logs_url'', readProp d ''logs_url''] (JStr []))
    \<and> field (parseDeploymentEvent now payload) ''commitUrl''
      = Some (resolve truthy [readProp d ''commit_url''] (JStr []))
    \<and> field (parseDeploymentEvent now payload) ''buildTime''
      = Some (resolve truthy [readProp d ''build_time'', readProp d ''duration''] JNull)
    \<and> field (parseDeploymentEvent now payload) ''createdAt''
      = Some (resolve truthy [readProp d ''created_at'', readProp d ''created_on''] (JStr now))
    \<and> field (parseDeploymentEvent now payload) ''error''
      = Some (resolve truthy [readProp d ''error'', readProp d ''build_error''] JNull)
    \<and> field (parseDeploymentEvent now payload) ''errorMessage''
      = Some (resolve truthy [readProp d ''error_message'', readProp d ''message''] JNull)
    \<and> field (parseDeploymentEvent now payload) ''stages''
      = Some (resolve truthy [readProp d ''stages''] (JArr []))
    \<and> field (parseDeploymentEvent now payload) ''latestStage''
      = Some (resolve truthy [readProp d ''latest_stage''] JNull)
    \<and> resolve truthy (JNum (Fin 0) # cs) dflt = resolve truthy cs dflt
    \<and> resolve truthy (JBool False # cs) dflt = resolve truthy cs dflt"
  using parse_object [OF assms, of now]
  by (simp add: field_def js_or_resolve1 js_or_resolve2)

theorem parse_first_truthy_wins_witness:
  "\<not> nullish (JObj [(''deployment'',
                      JObj [(''build_time'', JNum (Fin 0)), (''duration'', JNum (Fin 5)),
                            (''id'', JStr (us ''abc''))])])
   \<and> field (parseDeploymentEvent (us ''2024-01-01T00:00:00.000Z'')
              (JObj [(''deployment'',
                      JObj [(''build_time'', JNum (Fin 0)), (''duration'', JNum (Fin 5)),
                            (''id'', JStr (us ''abc''))])])) ''buildTime'' = Some (JNum (Fin 5))
   \<and> field (parseDeploymentEvent (us ''2024-01-01T00:00:00.000Z'')
              (JObj [(''deployment'',
                      JObj [(''build_time'', JNum (Fin 0)), (''duration'', JNum (Fin 5)),
                            (''id'', JStr (us ''abc''))])])) ''id'' = Some (JStr (us ''abc''))"
  using parse_first_truthy_wins
    [of "JObj [(''deployment'',
                JObj [(''build_time'', JNum (Fin 0)), (''duration'', JNum (Fin 5)),
                      (''id'', JStr (us ''abc''))])]"
        "JObj [(''build_time'', JNum (Fin 0)), (''duration'', JNum (Fin 5)), (''id'', JStr (us ''abc''))]"
        "us ''2024-01-01T00:00:00.000Z''"]
  by (simp add: js_or_def)

text \<open>
  C2: in the record the parser returns, \<^verbatim>\<open>isSuccess\<close> is true exactly when the
  resolved status is the string \<^verbatim>\<open>success\<close>, \<^verbatim>\<open>isFailure\<close> exactly when it is the
  string \<^verbatim>\<open>failure\<close> (equality of strings, so case matters), the two are never both
  true, and a status \<^verbatim>\<open>succeeded\<close> or \<^verbatim>\<open>SUCCESS\<close> gives both false.
\<close>

theorem status_classification:
  assumes "parseDeploymentEvent now payload = Inr r"
  shows "readProp r ''isSuccess'' = JBool (readProp r ''status'' = JStr (us ''success''))
       \<and> readProp r ''isFailure'' = JBool (readProp r ''status'' = JStr (us ''failure''))
       \<and> \<not> (readProp r ''isSuccess'' = JBool True \<and> readProp r ''isFailure'' = JBool True)
       \<and> (readProp r ''status'' = JStr (us ''succeeded'') \<or> readProp r ''status'' = JStr (us ''SUCCESS'')
            \<longrightarrow> readProp r ''isSuccess'' = JBool False \<and> readProp r ''isFailure'' = JBool False)"
proof -
  have nn: "\<not> nullish payload" using assms by (rule parse_Inr_not_nullish)
  have or_unknown: "js_or x (JStr (us ''unknown'')) = JStr (us s) \<longleftrightarrow> x = JStr (us s)"
    if "s \<noteq> ''unknown''" "s \<noteq> []" for x s
    using that by (auto simp: js_or_def)
  show ?thesis
    using assms parse_object [OF nn refl, of now]
    by (auto simp: or_unknown)
qed

theorem status_classification_witness:
  "\<exists>r. parseDeploymentEvent (us ''2024-01-01T00:00:00.000Z'')
          (JObj [(''deployment'', JObj [(''latest_stage'', JObj [(''status'', JStr (us ''success''))])])])
        = Inr r
      \<and> readProp r ''status'' = JStr (us ''success'')
      \<and> readProp r ''isSuccess'' = JBool True
      \<and> readProp r ''isFailure'' = JBool False"
proof -
  obtain r where r: "parseDeploymentEvent (us ''2024-01-01T00:00:00.000Z'')
          (JObj [(''deployment'', JObj [(''latest_stage'', JObj [(''status'', JStr (us ''success''))])])])
        = Inr r" and s: "readProp r ''status'' = JStr (us ''success'')"
    using parse_object [OF _ refl, of
        "JObj [(''deployment'', JObj [(''latest_stage'', JObj [(''status'', JStr (us ''success''))])])]"
        "us ''2024-01-01T00:00:00.000Z''"]
    by (simp add: js_or_def optProp_def)
  from status_classification [OF r] s r show ?thesis by auto
qed

text \<open>
  C3, as stated: an object is accepted exactly when one of the six fields is present. With
  presence as the specification defines it (\<^verbatim>\<open>0\<close> is present) this fails: an object
  whose top-level \<^verbatim>\<open>id\<close> is 0 has its \<^verbatim>\<open>id\<close> present and is rejected.
\<close>

theorem isValidPayload_zero_id_rejected:
  "\<not> absent_spec (readProp (JObj [(''id'', JNum (Fin 0))]) ''id'')
   \<and> isValidPayload (JObj [(''id'', JNum (Fin 0))]) = Inr False"
  by (simp add: absent_spec_def isValidPayload_def getProp_def orE_def optChain_def js_or_def)

text \<open>
  C3, amended: \<^verbatim>\<open>isValidPayload\<close> never throws; it returns false for \<^verbatim>\<open>null\<close> and for
  every value that is not an object, and for an object (or array) it returns true exactly
  when one of these holds a truthy value: \<^verbatim>\<open>deployment\<close>, \<^verbatim>\<open>deployment_id\<close>, \<^verbatim>\<open>id\<close>,
  \<^verbatim>\<open>status\<close>, \<^verbatim>\<open>deployment.status\<close>, \<^verbatim>\<open>latest_stage.status\<close>. So an object with
  only a non-empty status string is accepted, and an object with none of the six fields
  is rejected.
\<close>

theorem isValidPayload_truthy_fields:
  "isValidPayload p = Inr (typeof_object p \<and> p \<noteq> JNull
      \<and> (truthy (readProp p ''deployment'') \<or> truthy (readProp p ''deployment_id'')
          \<or> truthy (readProp p ''id'') \<or> truthy (readProp p ''status'')
          \<or> truthy (optProp (readProp p ''deployment'') ''status'')
          \<or> truthy (optProp (readProp p ''latest_stage'') ''status'')))"
proof (cases "truthy p \<and> typeof_object p")
  case True
  then have nn: "\<not> nullish p" by (simp add: truthy_not_nullish)
  from True have "p \<noteq> JNull" by auto
  with True nn show ?thesis
    by (simp add: isValidPayload_def getProp_ok orE_Inr optChain_Inr js_or_def)
next
  case False
  then show ?thesis
    by (cases p) (auto simp: isValidPayload_def)
qed

theorem isValidPayload_truthy_fields_witness:
  "isValidPayload (JObj [(''status'', JStr (us ''building''))]) = Inr True
   \<and> isValidPayload (JObj [(''name'', JStr (us ''x''))]) = Inr False
   \<and> isValidPayload JNull = Inr False
   \<and> isValidPayload (JStr (us ''status'')) = Inr False"
  using isValidPayload_truthy_fields [of "JObj [(''status'', JStr (us ''building''))]"]
    isValidPayload_truthy_fields [of "JObj [(''name'', JStr (us ''x''))]"]
    isValidPayload_truthy_fields [of JNull]
    isValidPayload_truthy_fields [of "JStr (us ''status'')"]
  by (simp add: optProp_def)


lemma js_or_defined: "dflt \<noteq> JUndefined \<Longrightarrow> js_or x dflt \<noteq> JUndefined"
  by (cases "truthy x") (auto simp: js_or_def)

lemma js_or_filled: "truthy (js_or x dflt) \<or> js_or x dflt = dflt"
  by (simp add: js_or_def)

text \<open>
  C9, as stated: on every accepted input the parser returns a record that defines every
  canonical field. It does not throw, and the record has the twenty fields, but the
  field \<^verbatim>\<open>id\<close> has no default: the accepted payload \<^verbatim>\<open>{"status": "success"}\<close> has
  neither \<^verbatim>\<open>id\<close> nor \<^verbatim>\<open>deployment_id\<close>, and the \<^verbatim>\<open>id\<close> of its record is
  \<^verbatim>\<open>undefined\<close>.
\<close>

theorem parse_id_can_be_undefined:
  "isValidPayload (JObj [(''status'', JStr (us ''success''))]) = Inr True
   \<and> field (parseDeploymentEvent (us ''2024-01-01T00:00:00.000Z'')
              (JObj [(''status'', JStr (us ''success''))])) ''id'' = Some JUndefined"
  by (simp add: isValidPayload_def field_def parseDeploymentEvent_def getProp_def orE_def
      optChain_def strictEqStr_def js_or_def)

text \<open>
  C9, amended: on every input that \<^verbatim>\<open>isValidPayload\<close> accepts (an object whose
  \<^verbatim>\<open>deployment\<close> is not an object, or that lacks every other field, included),
  \<^verbatim>\<open>parseDeploymentEvent\<close> does not throw and returns an object with the twenty
  canonical fields, in this order. Every field except \<^verbatim>\<open>id\<close> is defined: none of the
  nineteen is \<^verbatim>\<open>undefined\<close>, each field with a default holds a truthy value or that
  default, \<^verbatim>\<open>isSuccess\<close> and \<^verbatim>\<open>isFailure\<close> are booleans, and \<^verbatim>\<open>raw\<close> is the
  payload. The field \<^verbatim>\<open>id\<close> is \<^verbatim>\<open>id || deployment_id\<close> of the deployment, and it is
  \<^verbatim>\<open>undefined\<close> exactly when \<^verbatim>\<open>id\<close> is falsy and \<^verbatim>\<open>deployment_id\<close> is
  \<^verbatim>\<open>undefined\<close>.
\<close>

theorem parse_defines_all_but_id:
  assumes "isValidPayload p = Inr True" and "d = js_or (readProp p ''deployment'') p"
  shows "(\<exists>kvs. parseDeploymentEvent now p = Inr (JObj kvs)
           \<and> map fst kvs = [''id'', ''projectName'', ''environment'', ''status'', ''isSuccess'',
                ''isFailure'', ''branch'', ''commitHash'', ''commitMessage'', ''commitAuthor'',
                ''deploymentUrl'', ''buildLogsUrl'', ''commitUrl'', ''buildTime'', ''createdAt'',
                ''error'', ''errorMessage'', ''stages'', ''latestStage'', ''raw''])
       \<and> field (parseDeploymentEvent now p) ''raw'' = Some p
       \<and> field (parseDeploymentEvent now p) ''id''
            = Some (js_or (readProp d ''id'') (readProp d ''deployment_id''))
       \<and> (field (parseDeploymentEvent now p) ''id'' = Some JUndefined
            \<longleftrightarrow> \<not> truthy (readProp d ''id'') \<and> readProp d ''deployment_id'' = JUndefined)
       \<and> (\<forall>k \<in> set [''projectName'', ''environment'', ''status'', ''isSuccess'',
                ''isFailure'', ''branch'', ''commitHash'', ''commitMessage'', ''commitAuthor'',
                ''deploymentUrl'', ''buildLogsUrl'', ''commitUrl'', ''buildTime'', ''createdAt'',
                ''error'', ''errorMessage'', ''stages'', ''latestStage'', ''raw''].
              field (parseDeploymentEvent now p) k \<noteq> None
              \<and> field (parseDeploymentEvent now p) k \<noteq> Some JUndefined)
       \<and> filledWith (field (parseDeploymentEvent now p) ''projectName'') (JStr (us ''tlc-survey''))
       \<and> filledWith (field (parseDeploymentEvent now p) ''environment'') (JStr (us ''production''))
       \<and> filledWith (field (parseDeploymentEvent now p) ''status'') (JStr (us ''unknown''))
       \<and> (field (parseDeploymentEvent now p) ''isSuccess'' = Some (JBool True)
            \<or> field (parseDeploymentEvent now p) ''isSuccess'' = Some (JBool False))
       \<and> (field (parseDeploymentEvent now p) ''isFailure'' = Some (JBool True)
            \<or> field (parseDeploymentEvent now p) ''isFailure'' = Some (JBool False))
       \<and> filledWith (field (parseDeploymentEvent now p) ''branch'') (JStr (us ''main''))
       \<and> filledWith (field (parseDeploymentEvent now p) ''commitHash'') (JStr [])
       \<and> filledWith (field (parseDeploymentEvent now p) ''commitMessage'') (JStr [])
       \<and> filledWith (field (parseDeploymentEvent now p) ''commitAuthor'') (JStr [])
       \<and> filledWith (field (parseDeploymentEvent now p) ''deploymentUrl'') (JStr [])
       \<and> filledWith (field (parseDeploymentEvent now p) ''buildLogsUrl'') (JStr [])
       \<and> filledWith (field (parseDeploymentEvent now p) ''commitUrl'') (JStr [])
       \<and> filledWith (field (parseDeploymentEvent now p) ''buildTime'') JNull
       \<and> filledWith (field (parseDeploymentEvent now p) ''createdAt'') (JStr now)
       \<and> filledWith (field (parseDeploymentEvent now p) ''error'') JNull
       \<and> filledWith (field (parseDeploymentEvent now p) ''errorMessage'') JNull
       \<and> filledWith (field (parseDeploymentEvent now p) ''stages'') (JArr [])
       \<and> filledWith (field (parseDeploymentEvent now p) ''latestStage'') JNull"
proof -
  have nn: "\<not> nullish p" using assms(1) by (rule isValidPayload_not_nullish)
  then have pu: "p \<noteq> JUndefined" by auto
  have idu: "js_or (readProp d ''id'') (readProp d ''deployment_id'') = JUndefined
      \<longleftrightarrow> \<not> truthy (readProp d ''id'') \<and> readProp d ''deployment_id'' = JUndefined"
    by (cases "truthy (readProp d ''id'')") (auto simp: js_or_def)
  show ?thesis
    using pu idu
    by (simp add: parse_object [OF nn assms(2), of now] field_def filledWith_def
        js_or_defined js_or_filled)
qed

theorem parse_defines_all_but_id_witness:
  "isValidPayload (JObj [(''deployment'', JStr (us ''x''))]) = Inr True
   \<and> (\<exists>kvs. parseDeploymentEvent (us ''2024-01-01T00:00:00.000Z'')
               (JObj [(''deployment'', JStr (us ''x''))]) = Inr (JObj kvs)
           \<and> map fst kvs = [''id'', ''projectName'', ''environment'', ''status'', ''isSuccess'',
                ''isFailure'', ''branch'', ''commitHash'', ''commitMessage'', ''commitAuthor'',
                ''deploymentUrl'', ''buildLogsUrl'', ''commitUrl'', ''buildTime'', ''createdAt'',
                ''error'', ''errorMessage'', ''stages'', ''latestStage'', ''raw''])
   \<and> field (parseDeploymentEvent (us ''2024-01-01T00:00:00.000Z'')
               (JObj [(''deployment'', JStr (us ''x''))])) ''status'' \<noteq> Some JUndefined
   \<and> field (parseDeploymentEvent (us ''2024-01-01T00:00:00.000Z'')
               (JObj [(''deployment'', JStr (us ''x''))])) ''raw''
        = Some (JObj [(''deployment'', JStr (us ''x''))])
   \<and> field (parseDeploymentEvent (us ''2024-01-01T00:00:00.000Z'')
               (JObj [(''deployment'', JStr (us ''x''))])) ''id'' = Some JUndefined"
proof -
  have v: "isValidPayload (JObj [(''deployment'', JStr (us ''x''))]) = Inr True"
    by (simp add: isValidPayload_def getProp_def orE_def optChain_def js_or_def)
  have d: "JStr (us ''x'') = js_or (readProp (JObj [(''deployment'', JStr (us ''x''))]) ''deployment'')
                                  (JObj [(''deployment'', JStr (us ''x''))])"
    by (simp add: js_or_def)
  note th = parse_defines_all_but_id [OF v d, of "us ''2024-01-01T00:00:00.000Z''"]
  note keys = th [THEN conjunct1]
  note raw = th [THEN conjunct2, THEN conjunct1]
  note id = th [THEN conjunct2, THEN conjunct2, THEN conjunct1]
  note defined = th [THEN conjunct2, THEN conjunct2, THEN conjunct2, THEN conjunct2, THEN conjunct1]
  from defined have status:
    "field (parseDeploymentEvent (us ''2024-01-01T00:00:00.000Z'')
       (JObj [(''deployment'', JStr (us ''x''))])) ''status'' \<noteq> Some JUndefined"
    by simp
  from id have idu:
    "field (parseDeploymentEvent (us ''2024-01-01T00:00:00.000Z'')
       (JObj [(''deployment'', JStr (us ''x''))])) ''id'' = Some JUndefined"
    by (simp add: js_or_def)
  from v keys status raw idu show ?thesis by (intro conjI)
qed

end
